theory Spec2Isabelle
  imports Main
begin

section \<open>The account dropdown of the cafeteria front end\<close>

text \<open>
  The development embeds \<^verbatim>\<open>frontend/src/components/UsernameMenu.tsx\<close>: one React
  function component that reads \<^verbatim>\<open>{ user, logout }\<close> from \<^verbatim>\<open>useAuth0()\<close> and returns a
  JSX tree. The function body has one destructuring and one \<^verbatim>\<open>return\<close>; it holds no
  state of its own, assigns nothing and calls nothing but the hook and the element
  constructors, so a render is a pure function from the hook's result to an element tree.
  The only code that runs after the render is the arrow function stored in the
  \<^verbatim>\<open>onClick\<close> attribute of the button.
\<close>

subsection \<open>Values, the identity accessor and errors\<close>

text \<open>
  The JavaScript values that reach a function as an argument here: nothing useful
  (\<^verbatim>\<open>undefined\<close>), a string, or the event object React hands to an event handler
  (named by its event type).
\<close>

datatype js_value = JS_undefined | JS_string string | JS_event string

text \<open>
  The user object of the identity provider. The component reads the field
  \<^verbatim>\<open>email?: string\<close> only; the other fields of the provider's user (name, picture,
  ...) are the extension part of the record, so that every statement about
  \<open>'m User_scheme\<close> holds whatever those fields are.
\<close>

record User =
  email :: "string option"

text \<open>
  What \<^verbatim>\<open>useAuth0()\<close> returns, as far as line 10 destructures it: \<^verbatim>\<open>user\<close>, which is
  \<^verbatim>\<open>undefined\<close> (\<open>None\<close>) until the provider has resolved, and the function
  \<^verbatim>\<open>logout\<close>. The function belongs to the external library; it is a parameter of the
  model: given its argument list it transforms the provider's state \<open>'w\<close>. The hook's
  result has more fields (a loading flag, the login functions, ...), which line 10 leaves
  aside: they are the extension part of the record.
\<close>

record ('m, 'w) auth0_context =
  user :: "'m User_scheme option"
  logout :: "js_value list \<Rightarrow> 'w \<Rightarrow> 'w"

datatype error = TypeError

text \<open>
  \<^verbatim>\<open>user.email\<close>: reading a property of \<^verbatim>\<open>undefined\<close> throws a TypeError.
\<close>

definition member_email :: "'m User_scheme option \<Rightarrow> error + string option" where
  "member_email u = (case u of None \<Rightarrow> Inl TypeError | Some x \<Rightarrow> Inr (email x))"

text \<open>
  \<^verbatim>\<open>user?.email\<close> (line 15): the optional chain yields \<^verbatim>\<open>undefined\<close> when the object is
  \<^verbatim>\<open>undefined\<close> and reads the property otherwise.
\<close>

definition optional_email :: "'m User_scheme option \<Rightarrow> error + string option" where
  "optional_email u = (case u of None \<Rightarrow> Inr None | Some x \<Rightarrow> member_email (Some x))"

subsection \<open>Element trees\<close>

text \<open>The components the file imports and uses as JSX tags.\<close>

datatype component =
    DropdownMenu | DropdownMenuTrigger | DropdownMenuContent | DropdownMenuItem
  | Separator | CircleUserRound | Link | Button

text \<open>
  A JSX attribute is a string literal or a function. An element has its tag, its
  attributes in source order, and its children. A child is an element, a text, or the
  value \<^verbatim>\<open>undefined\<close>, which React renders as nothing.
\<close>

datatype 'w jsx_prop = StringProp string | HandlerProp "js_value list \<Rightarrow> 'w \<Rightarrow> 'w"

datatype 'w node =
    Text string
  | Undefined_child
  | Element component "(string \<times> 'w jsx_prop) list" "'w node list"

text \<open>The child \<^verbatim>\<open>{v}\<close> for a value \<^verbatim>\<open>v\<close> of type \<^verbatim>\<open>string | undefined\<close>.\<close>

definition jsx_expression :: "string option \<Rightarrow> 'w node" where
  "jsx_expression v = (case v of None \<Rightarrow> Undefined_child | Some s \<Rightarrow> Text s)"

subsection \<open>The component\<close>

text \<open>
  Lines 9 to 38. JSX drops a text that is only white space when it contains a line
  break, trims the lines of a text, and drops a comment \<^verbatim>\<open>{/* ... */}\<close>. The one space
  between the opening tag of the trigger and the comment on line 13 stands on a single
  line, so it stays: it is the first child of the trigger. The handler on line 29,
  \<^verbatim>\<open>() => logout()\<close>, takes no parameter: it ignores what it is called with and calls
  \<^verbatim>\<open>logout\<close> with an empty argument list.
\<close>

definition UsernameMenu :: "('m, 'w, 'x) auth0_context_scheme \<Rightarrow> error + 'w node" where
  "UsernameMenu auth =
    (case optional_email (user auth) of
       Inl err \<Rightarrow> Inl err
     | Inr user_email \<Rightarrow> Inr
        (Element DropdownMenu []
          [Element DropdownMenuTrigger
             [(''className'', StringProp
                 ''flex items-center px-3 font-bold hover:text-orange-500 gap-2 outline-none'')]
             [Text '' '',
              Element CircleUserRound [(''className'', StringProp ''text-orange-500'')] [],
              jsx_expression user_email],
           Element DropdownMenuContent []
             [Element DropdownMenuItem []
                [Element Link
                   [(''to'', StringProp ''/user-profile''),
                    (''className'', StringProp ''font-bold hover:text-orange-500'')]
                   [Text ''User Profile'']],
              Element Separator [] [],
              Element DropdownMenuItem []
                [Element Button
                   [(''onClick'', HandlerProp (\<lambda>args. logout auth [])),
                    (''className'', StringProp ''flex flex-1 font-bold bg-orange-500'')]
                   [Text ''Logout'']]]]))"

subsection \<open>Reading an element tree\<close>

fun component_of :: "'w node \<Rightarrow> component option" where
  "component_of (Element c ps cs) = Some c"
| "component_of (Text s) = None"
| "component_of Undefined_child = None"

fun props_of :: "'w node \<Rightarrow> (string \<times> 'w jsx_prop) list" where
  "props_of (Element c ps cs) = ps"
| "props_of (Text s) = []"
| "props_of Undefined_child = []"

fun children_of :: "'w node \<Rightarrow> 'w node list" where
  "children_of (Element c ps cs) = cs"
| "children_of (Text s) = []"
| "children_of Undefined_child = []"

text \<open>The first child with a given tag.\<close>

definition find_child :: "component \<Rightarrow> 'w node \<Rightarrow> 'w node option" where
  "find_child c n = find (\<lambda>k. component_of k = Some c) (children_of n)"

text \<open>The text a node displays: the texts below it, in document order.\<close>

fun text_content :: "'w node \<Rightarrow> string" where
  "text_content (Text s) = s"
| "text_content Undefined_child = []"
| "text_content (Element c ps cs) = concat (map text_content cs)"

text \<open>The texts among the children of a node.\<close>

fun text_of :: "'w node \<Rightarrow> string list" where
  "text_of (Text s) = [s]"
| "text_of Undefined_child = []"
| "text_of (Element c ps cs) = []"

definition child_texts :: "'w node \<Rightarrow> string list" where
  "child_texts n = concat (map text_of (children_of n))"

text \<open>All elements of a tree, the root first, in document order.\<close>

fun elements :: "'w node \<Rightarrow> 'w node list" where
  "elements (Text s) = []"
| "elements Undefined_child = []"
| "elements (Element c ps cs) = Element c ps cs # concat (map elements cs)"

text \<open>An attribute of an element, by name.\<close>

definition string_prop :: "string \<Rightarrow> 'w node \<Rightarrow> string option" where
  "string_prop k n =
     (case map_of (props_of n) k of Some (StringProp s) \<Rightarrow> Some s | _ \<Rightarrow> None)"

definition handler_prop :: "string \<Rightarrow> 'w node \<Rightarrow> (js_value list \<Rightarrow> 'w \<Rightarrow> 'w) option" where
  "handler_prop k n =
     (case map_of (props_of n) k of Some (HandlerProp h) \<Rightarrow> Some h | _ \<Rightarrow> None)"

definition has_handler :: "'w node \<Rightarrow> bool" where
  "has_handler n = (filter (\<lambda>(k, p). case p of HandlerProp h \<Rightarrow> True | StringProp s \<Rightarrow> False)
                       (props_of n) \<noteq> [])"

text \<open>
  A click on an element: React calls the element's \<^verbatim>\<open>onClick\<close> attribute, when it has
  one, with the event as its single argument; an element without one does nothing of the
  component's.
\<close>

definition fire_click :: "'w node \<Rightarrow> js_value \<Rightarrow> 'w \<Rightarrow> 'w" where
  "fire_click n ev w = (case handler_prop ''onClick'' n of None \<Rightarrow> w | Some h \<Rightarrow> h [ev] w)"

text \<open>
  The controls a user activates: the router link (an anchor), the button, and the
  trigger of the dropdown (a button). A menu item is the entry that wraps a control; the
  separator and the icon are decoration.
\<close>

fun interactive :: "component \<Rightarrow> bool" where
  "interactive Link = True"
| "interactive Button = True"
| "interactive DropdownMenuTrigger = True"
| "interactive DropdownMenu = False"
| "interactive DropdownMenuContent = False"
| "interactive DropdownMenuItem = False"
| "interactive Separator = False"
| "interactive CircleUserRound = False"

fun control_of :: "'w node \<Rightarrow> (component \<times> string) list" where
  "control_of (Element c ps cs) =
     (if interactive c then [(c, text_content (Element c ps cs))] else [])"
| "control_of (Text s) = []"
| "control_of Undefined_child = []"

text \<open>The controls below a node, each with its label, in document order.\<close>

definition controls :: "'w node \<Rightarrow> (component \<times> string) list" where
  "controls n = concat (map control_of (elements n))"

text \<open>The entries of a menu: the menu items among the children of its content.\<close>

definition menu_entries :: "'w node \<Rightarrow> 'w node list" where
  "menu_entries n = filter (\<lambda>k. component_of k = Some DropdownMenuItem) (children_of n)"

text \<open>The router links of a tree, in document order.\<close>

definition links :: "'w node \<Rightarrow> 'w node list" where
  "links n = filter (\<lambda>k. component_of k = Some Link) (elements n)"

text \<open>
  A bare link: one that names no target, neither by an \<^verbatim>\<open>href\<close> attribute nor by the
  router's \<^verbatim>\<open>to\<close> attribute.
\<close>

definition bare_link :: "'w node \<Rightarrow> bool" where
  "bare_link n = (string_prop ''href'' n = None \<and> string_prop ''to'' n = None)"

subsection \<open>Re-rendering\<close>

text \<open>
  When a component renders again, React keeps the instance of every element whose type
  stands at the same position as before and only updates it; an instance is unmounted and
  mounted anew when the type at its position changes. What decides this is the tree
  without its attributes and texts.
\<close>

datatype shape = Leaf | Shape component "shape list"

fun shape_of :: "'w node \<Rightarrow> shape" where
  "shape_of (Text s) = Leaf"
| "shape_of Undefined_child = Leaf"
| "shape_of (Element c ps cs) = Shape c (map shape_of cs)"

subsection \<open>The external collaborators, as test doubles\<close>

text \<open>
  A recording \<^verbatim>\<open>logout\<close>: the state is the list of the argument lists it has been called
  with, one per call.
\<close>

definition record_call :: "js_value list \<Rightarrow> js_value list list \<Rightarrow> js_value list list" where
  "record_call args calls = calls @ [args]"

text \<open>
  The router is external. Its link navigates to the value of its \<^verbatim>\<open>to\<close> attribute when
  it is selected; \<open>navigate\<close> is the router's navigation function, a parameter.
\<close>

definition select_link :: "(string \<Rightarrow> 'r \<Rightarrow> 'r) \<Rightarrow> 'w node \<Rightarrow> 'r \<Rightarrow> 'r" where
  "select_link navigate n r =
     (if component_of n = Some Link
      then (case string_prop ''to'' n of None \<Rightarrow> r | Some path \<Rightarrow> navigate path r)
      else r)"

definition record_navigation :: "string \<Rightarrow> string list \<Rightarrow> string list" where
  "record_navigation path history = history @ [path]"

subsection \<open>The dropdown primitive\<close>

text \<open>
  Modelled from the spec: the dropdown primitive of \<^verbatim>\<open>@/components/ui/dropdown-menu\<close>
  is a file of this repository that is not among the sources. The specification gives its
  behaviour: the menu is closed by default; it opens on trigger interaction; it closes on
  outside interaction or item selection. The items a user can select are those of the
  menu, counted from 0. Nothing is said of other events (a trigger interaction while the
  menu is open, an outside interaction while it is closed): they have no successor here.
\<close>

datatype menu_state = Closed | Opened

datatype menu_event = Trigger_interaction | Outside_interaction | Item_selection nat

definition dropdown_initial :: menu_state where
  "dropdown_initial = Closed"

fun dropdown_step :: "nat \<Rightarrow> menu_state \<Rightarrow> menu_event \<Rightarrow> menu_state option" where
  "dropdown_step n Closed Trigger_interaction = Some Opened"
| "dropdown_step n Opened Outside_interaction = Some Closed"
| "dropdown_step n Opened (Item_selection i) = (if i < n then Some Closed else None)"
| "dropdown_step n Opened Trigger_interaction = None"
| "dropdown_step n Closed Outside_interaction = None"
| "dropdown_step n Closed (Item_selection i) = None"

text \<open>
  The dropdown of a rendered tree: the root has to be the dropdown container with a
  trigger and a content; the items are the entries of the content.
\<close>

definition dropdown_items :: "'w node \<Rightarrow> nat option" where
  "dropdown_items t =
     (if component_of t = Some DropdownMenu
      then (case (find_child DropdownMenuTrigger t, find_child DropdownMenuContent t) of
              (Some tr, Some c) \<Rightarrow> Some (length (menu_entries c))
            | _ \<Rightarrow> None)
      else None)"

fun dropdown_run :: "nat \<Rightarrow> menu_state \<Rightarrow> menu_event list \<Rightarrow> menu_state option" where
  "dropdown_run n s [] = Some s"
| "dropdown_run n s (e # es) =
     (case dropdown_step n s e of None \<Rightarrow> None | Some s' \<Rightarrow> dropdown_run n s' es)"

section \<open>Properties\<close>

subsection \<open>The render never fails\<close>

lemma optional_email_total:
  "optional_email u = Inr (case u of None \<Rightarrow> None | Some x \<Rightarrow> email x)"
  by (simp add: optional_email_def member_email_def split: option.split)

text \<open>The plain access \<^verbatim>\<open>user.email\<close> would throw before the provider has resolved.\<close>

lemma member_email_throws: "member_email None = Inl TypeError"
  by (simp add: member_email_def)

text \<open>Every render returns a tree, and the tree is this one.\<close>

lemma UsernameMenu_returns:
  "UsernameMenu auth = Inr
     (Element DropdownMenu []
        [Element DropdownMenuTrigger
           [(''className'', StringProp
               ''flex items-center px-3 font-bold hover:text-orange-500 gap-2 outline-none'')]
           [Text '' '',
            Element CircleUserRound [(''className'', StringProp ''text-orange-500'')] [],
            jsx_expression (case user auth of None \<Rightarrow> None | Some x \<Rightarrow> email x)],
         Element DropdownMenuContent []
           [Element DropdownMenuItem []
              [Element Link
                 [(''to'', StringProp ''/user-profile''),
                  (''className'', StringProp ''font-bold hover:text-orange-500'')]
                 [Text ''User Profile'']],
            Element Separator [] [],
            Element DropdownMenuItem []
              [Element Button
                 [(''onClick'', HandlerProp (\<lambda>args. logout auth [])),
                  (''className'', StringProp ''flex flex-1 font-bold bg-orange-500'')]
                 [Text ''Logout'']]]])"
  by (simp add: UsernameMenu_def optional_email_total)

lemma elements_jsx_expression [simp]: "elements (jsx_expression v) = []"
  by (simp add: jsx_expression_def split: option.split)

lemma shape_of_jsx_expression [simp]: "shape_of (jsx_expression v) = Leaf"
  by (simp add: jsx_expression_def split: option.split)

lemma component_of_jsx_expression [simp]: "component_of (jsx_expression v) = None"
  by (simp add: jsx_expression_def split: option.split)

subsection \<open>The logout button\<close>

text \<open>
  Claim C1. In every render exactly one element carries a handler: the button labelled
  "Logout", in its \<^verbatim>\<open>onClick\<close> attribute. Whatever the handler is called with, its effect
  on the provider's state is that of one call of \<^verbatim>\<open>logout\<close> with an empty argument list,
  for every \<^verbatim>\<open>logout\<close> function; so a click on the button, which passes the event, has
  that effect. With the recording \<^verbatim>\<open>logout\<close>, a click appends exactly one entry to the
  record of calls, and the entry is the empty argument list.
\<close>

theorem logout_click_calls_logout_once:
  "\<exists>t b h. UsernameMenu auth = Inr t
      \<and> filter has_handler (elements t) = [b]
      \<and> component_of b = Some Button \<and> text_content b = ''Logout''
      \<and> map fst (props_of b) = [''onClick'', ''className'']
      \<and> handler_prop ''onClick'' b = Some h
      \<and> (\<forall>args. h args w = logout auth [] w)
      \<and> fire_click b ev w = logout auth [] w
      \<and> (\<exists>t' b'. UsernameMenu \<lparr>user = user auth, logout = record_call\<rparr> = Inr t'
            \<and> filter has_handler (elements t') = [b']
            \<and> fire_click b' ev calls = calls @ [[]])"
  by (simp add: UsernameMenu_returns has_handler_def handler_prop_def fire_click_def
      record_call_def)

subsection \<open>The trigger\<close>

text \<open>
  Claim C2. When the user is present and its email is the string \<open>e\<close>, the render
  returns a tree whose trigger has two texts among its children, the space of line 13 and
  \<open>e\<close>; the trigger displays \<open>e\<close> after that space.
\<close>

theorem trigger_shows_email:
  assumes "user auth = Some u" and "email u = Some e"
  shows "\<exists>t tr. UsernameMenu auth = Inr t \<and> find_child DropdownMenuTrigger t = Some tr
           \<and> child_texts tr = ['' '', e] \<and> text_content tr = '' '' @ e"
  using assms
  by (simp add: UsernameMenu_returns find_child_def child_texts_def jsx_expression_def)

theorem trigger_shows_email_witness:
  "user \<lparr>user = Some \<lparr>email = Some ''a@b.com''\<rparr>, logout = record_call\<rparr>
      = Some \<lparr>email = Some ''a@b.com''\<rparr>
   \<and> email \<lparr>email = Some ''a@b.com''\<rparr> = Some ''a@b.com''
   \<and> (\<exists>t tr. UsernameMenu \<lparr>user = Some \<lparr>email = Some ''a@b.com''\<rparr>, logout = record_call\<rparr>
            = Inr t
          \<and> find_child DropdownMenuTrigger t = Some tr
          \<and> child_texts tr = ['' '', ''a@b.com''] \<and> text_content tr = '' a@b.com'')"
  using trigger_shows_email
    [of "\<lparr>user = Some \<lparr>email = Some ''a@b.com''\<rparr>, logout = record_call\<rparr>"
        "\<lparr>email = Some ''a@b.com''\<rparr>" "''a@b.com''"]
  by simp

text \<open>
  Claim C5. When the user is absent, or present with no email, the render returns a tree
  (the optional chain yields \<^verbatim>\<open>undefined\<close> instead of throwing); the last child of the
  trigger is that \<^verbatim>\<open>undefined\<close>, and the only text of the trigger is the space of line 13:
  no email is displayed.
\<close>

theorem render_without_email:
  assumes "user auth = None \<or> (\<exists>u. user auth = Some u \<and> email u = None)"
  shows "\<exists>t tr. UsernameMenu auth = Inr t \<and> find_child DropdownMenuTrigger t = Some tr
           \<and> children_of tr =
               [Text '' '',
                Element CircleUserRound [(''className'', StringProp ''text-orange-500'')] [],
                Undefined_child]
           \<and> child_texts tr = ['' ''] \<and> text_content tr = '' ''"
  using assms
  by (auto simp add: UsernameMenu_returns find_child_def child_texts_def jsx_expression_def)

theorem render_without_email_witness:
  "(user \<lparr>user = (None :: User option), logout = record_call\<rparr> = None
      \<or> (\<exists>u. user \<lparr>user = (None :: User option), logout = record_call\<rparr> = Some u
               \<and> email u = None))
   \<and> (\<exists>t tr. UsernameMenu \<lparr>user = (None :: User option), logout = record_call\<rparr> = Inr t
          \<and> find_child DropdownMenuTrigger t = Some tr
          \<and> children_of tr =
               [Text '' '',
                Element CircleUserRound [(''className'', StringProp ''text-orange-500'')] [],
                Undefined_child]
          \<and> child_texts tr = ['' ''] \<and> text_content tr = '' '')
   \<and> (user \<lparr>user = Some \<lparr>email = None\<rparr>, logout = record_call\<rparr> = None
      \<or> (\<exists>u. user \<lparr>user = Some \<lparr>email = None\<rparr>, logout = record_call\<rparr> = Some u
               \<and> email u = None))
   \<and> (\<exists>t tr. UsernameMenu \<lparr>user = Some \<lparr>email = None\<rparr>, logout = record_call\<rparr> = Inr t
          \<and> find_child DropdownMenuTrigger t = Some tr
          \<and> children_of tr =
               [Text '' '',
                Element CircleUserRound [(''className'', StringProp ''text-orange-500'')] [],
                Undefined_child]
          \<and> child_texts tr = ['' ''] \<and> text_content tr = '' '')"
proof -
  have absent: "user \<lparr>user = (None :: User option), logout = record_call\<rparr> = None
      \<or> (\<exists>u. user \<lparr>user = (None :: User option), logout = record_call\<rparr> = Some u
               \<and> email u = None)"
    by simp
  have no_email: "user \<lparr>user = Some \<lparr>email = None\<rparr>, logout = record_call\<rparr> = None
      \<or> (\<exists>u. user \<lparr>user = Some \<lparr>email = None\<rparr>, logout = record_call\<rparr> = Some u
               \<and> email u = None)"
    by simp
  from absent render_without_email [OF absent] no_email render_without_email [OF no_email]
  show ?thesis
    by (intro conjI)
qed

subsection \<open>The menu content\<close>

text \<open>
  Claim C3. In every render the content of the menu has three children: a menu item, the
  separator, a menu item. The first item holds one control, a link labelled
  "User Profile"; the second holds one control, a button labelled "Logout"; these two are
  all the controls of the content.
\<close>

theorem menu_has_two_entries:
  "\<exists>t c. UsernameMenu auth = Inr t \<and> find_child DropdownMenuContent t = Some c
      \<and> map component_of (children_of c) =
          [Some DropdownMenuItem, Some Separator, Some DropdownMenuItem]
      \<and> map controls (menu_entries c) = [[(Link, ''User Profile'')], [(Button, ''Logout'')]]
      \<and> controls c = [(Link, ''User Profile''), (Button, ''Logout'')]"
  by (simp add: UsernameMenu_returns find_child_def controls_def menu_entries_def)

text \<open>
  Claim C4. In every render the tree has one router link; it stands in the first menu
  entry, is labelled "User Profile", and its \<^verbatim>\<open>to\<close> attribute is the string
  \<^verbatim>\<open>/user-profile\<close>. Selecting it calls the router's navigation with that path, whatever
  the router's navigation function is; a recording router gains the one entry
  \<^verbatim>\<open>/user-profile\<close>.
\<close>

theorem user_profile_link_target:
  "\<exists>t c l. UsernameMenu auth = Inr t \<and> find_child DropdownMenuContent t = Some c
      \<and> links t = [l] \<and> map links (menu_entries c) = [[l], []]
      \<and> text_content l = ''User Profile''
      \<and> string_prop ''to'' l = Some ''/user-profile''
      \<and> select_link navigate l r = navigate ''/user-profile'' r
      \<and> select_link record_navigation l history = history @ [''/user-profile'']"
  by (simp add: UsernameMenu_returns find_child_def links_def menu_entries_def string_prop_def
      select_link_def record_navigation_def)

text \<open>
  Claim C9, as the specification states it, says the "User Profile" link is bare: no
  explicit \<^verbatim>\<open>href\<close> and no explicit route target. The link of the source is not bare: it
  has no \<^verbatim>\<open>href\<close> attribute, but line 20 gives it the route target
  \<^verbatim>\<open>to = "/user-profile"\<close>.
\<close>

theorem bare_link_counterexample:
  "map bare_link
     (links (projr (UsernameMenu \<lparr>user = (None :: User option), logout = record_call\<rparr>)))
     = [False]"
  by (simp add: UsernameMenu_returns links_def bare_link_def string_prop_def)

text \<open>
  Claim C9, amended. In every render, with or without a user, the one link of the tree is
  the same element: it has no \<^verbatim>\<open>href\<close> attribute, its route target is the explicit
  \<^verbatim>\<open>to = "/user-profile"\<close>, and it carries no handler. Nothing in the component guards the
  link against an absent user.
\<close>

theorem user_profile_link_unguarded:
  "\<exists>t. UsernameMenu auth = Inr t
      \<and> links t =
          [Element Link
             [(''to'', StringProp ''/user-profile''),
              (''className'', StringProp ''font-bold hover:text-orange-500'')]
             [Text ''User Profile'']]
      \<and> map (string_prop ''href'') (links t) = [None]
      \<and> map (string_prop ''to'') (links t) = [Some ''/user-profile'']
      \<and> map has_handler (links t) = [False]"
  by (simp add: UsernameMenu_returns links_def string_prop_def has_handler_def)

text \<open>
  Claim C10. Take any auth state and replace its user by any other value, absent or not.
  Both renders return a dropdown with the same attributes and two children, a trigger and
  a content. The content is the same element in both: a menu item with the
  "User Profile" link, the separator, a menu item with the "Logout" button, in this order.
  The triggers have the same attributes and the same children but the last, which is the
  value of \<^verbatim>\<open>user?.email\<close> in the one state and in the other.
\<close>

theorem menu_content_independent_of_user:
  "\<exists>t t' tr tr' c. UsernameMenu auth = Inr t \<and> UsernameMenu (auth\<lparr>user := u'\<rparr>) = Inr t'
      \<and> component_of t = Some DropdownMenu \<and> component_of t' = Some DropdownMenu
      \<and> props_of t' = props_of t
      \<and> children_of t = [tr, c] \<and> children_of t' = [tr', c]
      \<and> component_of c = Some DropdownMenuContent
      \<and> map (\<lambda>k. (component_of k, controls k)) (children_of c) =
          [(Some DropdownMenuItem, [(Link, ''User Profile'')]),
           (Some Separator, []),
           (Some DropdownMenuItem, [(Button, ''Logout'')])]
      \<and> component_of tr = Some DropdownMenuTrigger \<and> component_of tr' = Some DropdownMenuTrigger
      \<and> props_of tr' = props_of tr
      \<and> butlast (children_of tr') = butlast (children_of tr)
      \<and> last (children_of tr) =
          jsx_expression (case user auth of None \<Rightarrow> None | Some x \<Rightarrow> email x)
      \<and> last (children_of tr') = jsx_expression (case u' of None \<Rightarrow> None | Some x \<Rightarrow> email x)"
  by (simp add: UsernameMenu_returns controls_def)

subsection \<open>What the component reads and changes\<close>

text \<open>
  Claim C6. A render returns a tree and changes nothing. Of the elements of the tree only
  the button carries a handler, so a click on any other element leaves the provider's
  state as it is, and a click on the button changes it by \<^verbatim>\<open>logout()\<close> and by nothing
  else. Of the user the render reads the email only: two users with the same email, however
  they differ in their other fields, give the same tree.
\<close>

theorem identity_state_frame:
  "\<exists>t. UsernameMenu auth = Inr t
      \<and> (\<forall>n \<in> set (elements t).
            fire_click n ev w = (if component_of n = Some Button then logout auth [] w else w))
      \<and> filter has_handler (elements t) = filter (\<lambda>n. component_of n = Some Button) (elements t)
      \<and> (email u = email u' \<longrightarrow>
            UsernameMenu (auth\<lparr>user := Some u\<rparr>) = UsernameMenu (auth\<lparr>user := Some u'\<rparr>))"
  by (simp add: UsernameMenu_returns has_handler_def handler_prop_def fire_click_def)

theorem identity_state_frame_witness:
  "\<exists>t. UsernameMenu \<lparr>user = Some \<lparr>email = Some ''a@b.com'', \<dots> = True\<rparr>, logout = record_call\<rparr>
        = Inr t
      \<and> map (\<lambda>n. fire_click n (JS_event ''click'') []) (elements t)
          = [[], [], [], [], [], [], [], [], [[]]]
      \<and> email \<lparr>email = Some ''a@b.com'', \<dots> = True\<rparr> = email \<lparr>email = Some ''a@b.com'', \<dots> = False\<rparr>
      \<and> UsernameMenu \<lparr>user = Some \<lparr>email = Some ''a@b.com'', \<dots> = True\<rparr>, logout = record_call\<rparr>
          = UsernameMenu \<lparr>user = Some \<lparr>email = Some ''a@b.com'', \<dots> = False\<rparr>, logout = record_call\<rparr>"
  using identity_state_frame
    [where auth = "\<lparr>user = Some \<lparr>email = Some ''a@b.com'', \<dots> = True\<rparr>, logout = record_call\<rparr>"
       and ev = "JS_event ''click''" and w = "[]"
       and u = "\<lparr>email = Some ''a@b.com'', \<dots> = True\<rparr>"
       and u' = "\<lparr>email = Some ''a@b.com'', \<dots> = False\<rparr>"]
  by (simp add: UsernameMenu_returns record_call_def fire_click_def handler_prop_def
      has_handler_def)

text \<open>
  Claim C7. The component function has no parameter; its render is a function of the two
  values it takes from the hook: two results of the hook with the same \<^verbatim>\<open>user\<close> and the
  same \<^verbatim>\<open>logout\<close>, whatever their other fields, render the same tree. Rendering again
  after the email has changed to \<open>e'\<close> returns a tree of the same shape as before (the
  same component at every position, so that nothing is mounted anew) whose trigger shows
  \<open>e'\<close>.
\<close>

theorem render_function_of_auth_state:
  "(user auth = user auth' \<and> logout auth = logout auth'
      \<longrightarrow> UsernameMenu auth = UsernameMenu auth')
   \<and> (\<exists>t t' tr'. UsernameMenu auth = Inr t
          \<and> UsernameMenu (auth\<lparr>user := Some (u\<lparr>email := Some e'\<rparr>)\<rparr>) = Inr t'
          \<and> shape_of t' = shape_of t
          \<and> find_child DropdownMenuTrigger t' = Some tr'
          \<and> child_texts tr' = ['' '', e'] \<and> text_content tr' = '' '' @ e')"
  by (simp add: UsernameMenu_returns find_child_def child_texts_def jsx_expression_def
      split: option.split)

theorem render_function_of_auth_state_witness:
  "user \<lparr>user = Some \<lparr>email = Some ''a@b.com''\<rparr>, logout = record_call, \<dots> = True\<rparr>
     = user \<lparr>user = Some \<lparr>email = Some ''a@b.com''\<rparr>, logout = record_call, \<dots> = False\<rparr>
   \<and> logout \<lparr>user = Some \<lparr>email = Some ''a@b.com''\<rparr>, logout = record_call, \<dots> = True\<rparr>
     = logout \<lparr>user = Some \<lparr>email = Some ''a@b.com''\<rparr>, logout = record_call, \<dots> = False\<rparr>
   \<and> UsernameMenu \<lparr>user = Some \<lparr>email = Some ''a@b.com''\<rparr>, logout = record_call, \<dots> = True\<rparr>
     = UsernameMenu \<lparr>user = Some \<lparr>email = Some ''a@b.com''\<rparr>, logout = record_call, \<dots> = False\<rparr>
   \<and> (\<exists>t t' tr'.
         UsernameMenu \<lparr>user = Some \<lparr>email = Some ''a@b.com''\<rparr>, logout = record_call, \<dots> = True\<rparr>
           = Inr t
       \<and> UsernameMenu \<lparr>user = Some \<lparr>email = Some ''c@d.org''\<rparr>, logout = record_call, \<dots> = True\<rparr>
           = Inr t'
       \<and> shape_of t' = shape_of t
       \<and> find_child DropdownMenuTrigger t' = Some tr'
       \<and> child_texts tr' = ['' '', ''c@d.org''] \<and> text_content tr' = '' c@d.org'')"
  using render_function_of_auth_state
    [where auth = "\<lparr>user = Some \<lparr>email = Some ''a@b.com''\<rparr>, logout = record_call, \<dots> = True\<rparr>"
       and auth' = "\<lparr>user = Some \<lparr>email = Some ''a@b.com''\<rparr>, logout = record_call, \<dots> = False\<rparr>"
       and u = "\<lparr>email = Some ''a@b.com''\<rparr>" and e' = "''c@d.org''"]
  by (simp add: UsernameMenu_returns find_child_def child_texts_def jsx_expression_def)

subsection \<open>Opening and closing\<close>

text \<open>
  Claim C8. Every render returns a dropdown container without attributes that holds a
  trigger and a content with two menu items, so the primitive runs with its standard
  behaviour: the menu starts closed; a trigger interaction opens it; from the open menu an
  outside interaction closes it, and so does the selection of either item; no selection
  of an item, in any state, ends in the open menu.
\<close>

theorem dropdown_open_close:
  "\<exists>t. UsernameMenu auth = Inr t \<and> component_of t = Some DropdownMenu \<and> props_of t = []
      \<and> dropdown_items t = Some 2
      \<and> dropdown_initial = Closed
      \<and> dropdown_step 2 dropdown_initial Trigger_interaction = Some Opened
      \<and> dropdown_step 2 Opened Outside_interaction = Some Closed
      \<and> dropdown_step 2 Opened (Item_selection 0) = Some Closed
      \<and> dropdown_step 2 Opened (Item_selection 1) = Some Closed
      \<and> dropdown_step 2 s (Item_selection i) \<noteq> Some Opened
      \<and> dropdown_run 2 dropdown_initial [Trigger_interaction, Item_selection 1] = Some Closed
      \<and> dropdown_run 2 dropdown_initial [Trigger_interaction, Outside_interaction] = Some Closed"
  by (cases s) (simp_all add: UsernameMenu_returns dropdown_items_def find_child_def
      menu_entries_def dropdown_initial_def)

end
